theory Spec2Isabelle
  imports Main
begin

section \<open>Values, events and rows\<close>

text \<open>
  The Slack event handed to the callback is a Python dict. The fields the handler reads
  (\<open>subtype\<close>, \<open>user\<close>, \<open>text\<close>, \<open>channel\<close>, \<open>ts\<close>) are strings in Slack's payload, or
  missing, or JSON null; so a value is \<open>None\<close> or a \<open>str\<close>. A \<open>str\<close> is a list of
  characters, and \<open>take\<close> is the slice \<open>s[:n]\<close>.
\<close>

datatype pyval = PyNone | PyStr string

type_synonym pydict = "string \<rightharpoonup> pyval"

text \<open>\<open>d.get(k)\<close>: the value stored under \<open>k\<close>, and \<open>None\<close> for a missing key.\<close>

definition dict_get :: "pydict \<Rightarrow> string \<Rightarrow> pyval" where
  "dict_get d k = (case d k of None \<Rightarrow> PyNone | Some v \<Rightarrow> v)"

text \<open>Truth value of an object in a condition: \<open>None\<close> and \<open>""\<close> are false.\<close>

fun truthy :: "pyval \<Rightarrow> bool" where
  "truthy PyNone = False"
| "truthy (PyStr s) = (s \<noteq> [])"

text \<open>\<open>str(v)\<close>, which is also what an f-string prints for \<open>{v}\<close>.\<close>

fun py_str :: "pyval \<Rightarrow> string" where
  "py_str PyNone = ''None''"
| "py_str (PyStr s) = s"

text \<open>\<open>v[:n]\<close> of a value known to be truthy, hence a non-empty \<open>str\<close>.\<close>

fun py_slice_to :: "nat \<Rightarrow> pyval \<Rightarrow> string" where
  "py_slice_to n PyNone = []"
| "py_slice_to n (PyStr s) = take n s"

text \<open>\<open>s.lower()\<close> on ASCII letters.\<close>

definition lower_char :: "char \<Rightarrow> char" where
  "lower_char c =
     (let n = (of_char c :: nat) in if 65 \<le> n \<and> n \<le> 90 then char_of (n + 32) else c)"

definition lower :: "string \<Rightarrow> string" where
  "lower s = map lower_char s"

text \<open>The character \<open>'\<close>, and \<open>str(KeyError(k))\<close>, which prints the key quoted.\<close>

definition apostrophe :: string where
  "apostrophe = [CHR 0x27]"

definition key_error :: "string \<Rightarrow> string" where
  "key_error k = apostrophe @ k @ apostrophe"

text \<open>\<open>needle in hay\<close> for strings: \<open>needle\<close> occurs as a contiguous run.\<close>

fun py_in :: "string \<Rightarrow> string \<Rightarrow> bool" where
  "py_in needle [] = (needle = [])"
| "py_in needle (c # cs) = (take (length needle) (c # cs) = needle \<or> py_in needle cs)"

text \<open>The dict \<open>data_to_insert\<close>: its four keys always present, so a record.\<close>

record row =
  slack_user_id :: pyval
  slack_channel_id :: pyval
  message_content :: pyval
  slack_message_ts :: pyval

section \<open>The store client\<close>

text \<open>
  \<open>supabase.table(name).insert(row).execute()\<close> either raises or returns a response with
  the attributes \<open>data\<close> (a list of dicts, the created rows) and \<open>error\<close> (\<open>None\<close>, or an
  object with a \<open>message\<close> and a printed form). The client is an external service: it is
  a parameter \<open>ins\<close> of the handlers, a function from the store's state, the table name and
  the row to the outcome and the store's next state.
\<close>

record api_error =
  message :: pyval
  shown :: string

record response =
  data :: "pydict list"
  error :: "api_error option"

datatype insert_result = Returned response | Raised string

type_synonym 'st insert_fn = "'st \<Rightarrow> string \<Rightarrow> row \<Rightarrow> insert_result \<times> 'st"

section \<open>Logging\<close>

datatype level = INFO | WARNING | ERROR | CRITICAL

text \<open>
  \<open>StreamlitLogHandler\<close> of app.py: \<open>write\<close> appends the message to the list \<open>buffer\<close> and
  echoes it to the process's real standard output; \<open>get_logs\<close> joins the list;
  \<open>clear_logs\<close> empties it (the \<open>StringIO\<close> underneath is never written to).
\<close>

record StreamlitLogHandler =
  buffer :: "string list"
  stdout_echo :: "string list"

definition log_write :: "string \<Rightarrow> StreamlitLogHandler \<Rightarrow> StreamlitLogHandler" where
  "log_write msg h = h\<lparr>buffer := buffer h @ [msg], stdout_echo := stdout_echo h @ [msg]\<rparr>"

definition get_logs :: "StreamlitLogHandler \<Rightarrow> string" where
  "get_logs h = concat (buffer h)"

definition clear_logs :: "StreamlitLogHandler \<Rightarrow> StreamlitLogHandler" where
  "clear_logs h = h\<lparr>buffer := []\<rparr>"

text \<open>
  What a handler can change: the records emitted through \<open>logger\<close>, the capture buffer
  (app.py only), the store, and the history of insert calls issued against the store.
\<close>

record 'st world =
  records :: "(level \<times> string) list"
  capture :: StreamlitLogHandler
  store :: 'st
  inserts :: "(string \<times> row) list"

definition logger_info :: "string \<Rightarrow> 'st world \<Rightarrow> 'st world" where
  "logger_info msg w = w\<lparr>records := records w @ [(INFO, msg)]\<rparr>"

definition logger_warning :: "string \<Rightarrow> 'st world \<Rightarrow> 'st world" where
  "logger_warning msg w = w\<lparr>records := records w @ [(WARNING, msg)]\<rparr>"

definition logger_error :: "string \<Rightarrow> 'st world \<Rightarrow> 'st world" where
  "logger_error msg w = w\<lparr>records := records w @ [(ERROR, msg)]\<rparr>"

definition capture_write :: "string \<Rightarrow> 'st world \<Rightarrow> 'st world" where
  "capture_write msg w = w\<lparr>capture := log_write msg (capture w)\<rparr>"

section \<open>The message handler\<close>

text \<open>The condition of the \<open>if\<close> in both \<open>handle_message_events\<close>.\<close>

definition relevant :: "string \<Rightarrow> pydict \<Rightarrow> bool" where
  "relevant target_slack_user_id event =
     (dict_get event ''subtype'' = PyNone
      \<and> dict_get event ''user'' = PyStr target_slack_user_id
      \<and> truthy (dict_get event ''text''))"

definition data_to_insert :: "pydict \<Rightarrow> row" where
  "data_to_insert event =
     \<lparr>slack_user_id = dict_get event ''user'',
      slack_channel_id = dict_get event ''channel'',
      message_content = dict_get event ''text'',
      slack_message_ts = dict_get event ''ts''\<rparr>"

text \<open>The call \<open>table(name).insert(row).execute()\<close>: one insert issued, the store moved on.\<close>

definition execute_insert ::
  "'st insert_fn \<Rightarrow> string \<Rightarrow> row \<Rightarrow> 'st world \<Rightarrow> insert_result \<times> 'st world" where
  "execute_insert ins table r w =
     (case ins (store w) table r of
        (res, st') \<Rightarrow> (res, w\<lparr>store := st', inserts := inserts w @ [(table, r)]\<rparr>))"

text \<open>\<open>"violates unique constraint" in str(response.error.message).lower()\<close>\<close>

definition unique_violation :: "api_error \<Rightarrow> bool" where
  "unique_violation e = py_in ''violates unique constraint'' (lower (py_str (message e)))"

text \<open>\<open>{response.error if response.error else 'No error info'}\<close>\<close>

definition error_info :: "api_error option \<Rightarrow> string" where
  "error_info e = (case e of None \<Rightarrow> ''No error info'' | Some err \<Rightarrow> shown err)"

text \<open>
  The body of a \<open>try\<close> block ends normally in a world, or raises: \<open>Inl\<close> carries the
  exception's text and the world as it was when the exception left the block.
\<close>

type_synonym 'st tried = "(string \<times> 'st world) + 'st world"

subsection \<open>console_bot.py\<close>

definition console_try :: "'st insert_fn \<Rightarrow> string \<Rightarrow> pydict \<Rightarrow> 'st world \<Rightarrow> 'st tried" where
  "console_try ins supabase_table_name event w =
     (case execute_insert ins supabase_table_name (data_to_insert event) w of
        (Raised e, w1) \<Rightarrow> Inl (e, w1)
      | (Returned resp, w1) \<Rightarrow>
          (case data resp of
             d # _ \<Rightarrow>
               (case d ''id'' of
                  None \<Rightarrow> Inl (key_error ''id'', w1)
                | Some i \<Rightarrow>
                    Inr (logger_info (''Message successfully stored in Supabase. ID: '' @ py_str i) w1))
           | [] \<Rightarrow>
               (let w2 = logger_warning
                           (''Supabase insert did not return data: '' @ error_info (error resp)) w1
                in case error resp of
                     None \<Rightarrow> Inr w2
                   | Some err \<Rightarrow>
                       if unique_violation err
                       then Inr (logger_warning
                                   (''Duplicate message (slack_message_ts: ''
                                      @ py_str (dict_get event ''ts'') @ '') not inserted.'') w2)
                       else Inr (logger_error
                                   (''Failed to store message in Supabase: '' @ shown err) w2))))"

definition handle_message_events_console ::
  "'st insert_fn \<Rightarrow> string \<Rightarrow> string \<Rightarrow> pydict \<Rightarrow> 'st world \<Rightarrow> 'st world" where
  "handle_message_events_console ins target_slack_user_id supabase_table_name event w =
     (if relevant target_slack_user_id event
      then
        (let w0 = logger_info
                    (''Received message from target user ('' @ py_str (dict_get event ''user'')
                       @ '') in channel ('' @ py_str (dict_get event ''channel'')
                       @ ''): '' @ apostrophe @ py_slice_to 70 (dict_get event ''text'') @ ''...'' @ apostrophe) w
         in case console_try ins supabase_table_name event w0 of
              Inr w1 \<Rightarrow> w1
            | Inl (e_db, w1) \<Rightarrow> logger_error (''Error storing message in Supabase: '' @ e_db) w1)
      else w)"

subsection \<open>app.py\<close>

text \<open>
  The interactive host logs every line twice: through \<open>logger\<close> and, with a level prefix
  and a newline, into the capture buffer the foreground reads.
\<close>

definition app_try :: "'st insert_fn \<Rightarrow> string \<Rightarrow> pydict \<Rightarrow> 'st world \<Rightarrow> 'st tried" where
  "app_try ins supabase_table_name event w =
     (case execute_insert ins supabase_table_name (data_to_insert event) w of
        (Raised e, w1) \<Rightarrow> Inl (e, w1)
      | (Returned resp, w1) \<Rightarrow>
          (case data resp of
             d # _ \<Rightarrow>
               (case d ''id'' of
                  None \<Rightarrow> Inl (key_error ''id'', w1)
                | Some i \<Rightarrow>
                    (let log_msg = ''Message successfully stored in Supabase. ID: '' @ py_str i
                     in Inr (capture_write (log_msg @ ''\<newline>'') (logger_info log_msg w1))))
           | [] \<Rightarrow>
               (let err_msg = ''Supabase insert did not return data: '' @ error_info (error resp);
                    w2 = capture_write (''WARNING: '' @ err_msg @ ''\<newline>'')
                           (logger_warning err_msg w1)
                in case error resp of
                     None \<Rightarrow> Inr w2
                   | Some err \<Rightarrow>
                       if unique_violation err
                       then
                         (let dup = ''Duplicate message (slack_message_ts: ''
                                      @ py_str (dict_get event ''ts'') @ '') not inserted.''
                          in Inr (capture_write (''WARNING: '' @ dup @ ''\<newline>'')
                                    (logger_warning dup w2)))
                       else Inr w2)))"

definition handle_message_events_app ::
  "'st insert_fn \<Rightarrow> string \<Rightarrow> string \<Rightarrow> pydict \<Rightarrow> 'st world \<Rightarrow> 'st world" where
  "handle_message_events_app ins target_slack_user_id supabase_table_name event w =
     (if relevant target_slack_user_id event
      then
        (let log_msg = ''Received message from target user ('' @ py_str (dict_get event ''user'')
                         @ '') in channel ('' @ py_str (dict_get event ''channel'')
                         @ ''): '' @ apostrophe @ py_slice_to 50 (dict_get event ''text'')
                         @ ''...'' @ apostrophe;
             w0 = capture_write (log_msg @ ''\<newline>'') (logger_info log_msg w)
         in case app_try ins supabase_table_name event w0 of
              Inr w1 \<Rightarrow> w1
            | Inl (e, w1) \<Rightarrow>
                (let err_msg = ''Error storing message in Supabase: '' @ e
                 in capture_write (''ERROR: '' @ err_msg @ ''\<newline>'') (logger_error err_msg w1)))
      else w)"

text \<open>The two hosts, to state a property of both handlers at once.\<close>

datatype host = App | Console

fun handle_message_events ::
  "host \<Rightarrow> 'st insert_fn \<Rightarrow> string \<Rightarrow> string \<Rightarrow> pydict \<Rightarrow> 'st world \<Rightarrow> 'st world" where
  "handle_message_events App = handle_message_events_app"
| "handle_message_events Console = handle_message_events_console"

text \<open>The length the confirmation line cuts the text to: \<open>[:50]\<close> in app.py, \<open>[:70]\<close> in console_bot.py.\<close>

fun preview_length :: "host \<Rightarrow> nat" where
  "preview_length App = 50"
| "preview_length Console = 70"

section \<open>Configuration\<close>

text \<open>The six settings, under the names the configuration dict of app.py gives them.\<close>

record RuntimeConfig =
  SLACK_BOT_TOKEN :: string
  SLACK_APP_TOKEN :: string
  SUPABASE_URL :: string
  SUPABASE_SERVICE_KEY :: string
  TARGET_SLACK_USER_ID :: string
  SUPABASE_TABLE_NAME :: string

definition default_table_name :: string where
  "default_table_name = ''slack_messages_for_sensay''"

text \<open>The process environment, as it is once \<open>load_dotenv()\<close> has run.\<close>

type_synonym environ = "string \<rightharpoonup> string"

text \<open>
  The operator at the terminal: the line typed in reply to a prompt, \<open>None\<close> when the
  input has ended (\<open>input\<close> and \<open>getpass\<close> then raise \<open>EOFError\<close>).
\<close>

type_synonym operator = "string \<Rightarrow> string option"

text \<open>
  How the process ends before it serves: \<open>sys.exit(n)\<close>, or an exception nothing catches,
  which the interpreter reports with exit status 1.
\<close>

datatype exit_cause = SystemExit nat | Uncaught string

fun exit_status :: "exit_cause \<Rightarrow> nat" where
  "exit_status (SystemExit n) = n"
| "exit_status (Uncaught e) = 1"

text \<open>What the console host does that can be seen from outside, in order.\<close>

datatype effect =
    Prompted string bool
  | Logged level string
  | ConstructedApp string
  | CreatedClient string string
  | RegisteredHandler string string
  | ConstructedSocketModeHandler string
  | StartedListening

type_synonym 'a step = "effect list \<times> (exit_cause + 'a)"

definition then_step :: "'a step \<Rightarrow> ('a \<Rightarrow> 'b step) \<Rightarrow> 'b step" where
  "then_step m f =
     (case m of
        (tr, Inl t) \<Rightarrow> (tr, Inl t)
      | (tr, Inr a) \<Rightarrow> (case f a of (tr', r) \<Rightarrow> (tr @ tr', r)))"

subsection \<open>console_bot.py: environment, then prompt\<close>

definition get_env_variable :: "environ \<Rightarrow> operator \<Rightarrow> string \<Rightarrow> string \<Rightarrow> bool \<Rightarrow> string step" where
  "get_env_variable env reply var_name prompt_text is_secret =
     (let asked =
        (case reply (prompt_text @ '': '') of
           None \<Rightarrow> ([Prompted (prompt_text @ '': '') is_secret], Inl (Uncaught ''EOFError''))
         | Some v \<Rightarrow>
             if v = []
             then ([Prompted (prompt_text @ '': '') is_secret,
                    Logged ERROR (''Required configuration '' @ apostrophe @ var_name @ apostrophe
                                    @ '' was not provided. Exiting.'')],
                   Inl (SystemExit 1))
             else ([Prompted (prompt_text @ '': '') is_secret], Inr v))
      in case env var_name of
           None \<Rightarrow> asked
         | Some v \<Rightarrow> if v = [] then asked else ([], Inr v))"

definition table_name_prompt :: string where
  "table_name_prompt = ''Enter Supabase Table Name (default: slack_messages_for_sensay): ''"

definition get_table_name :: "environ \<Rightarrow> operator \<Rightarrow> string step" where
  "get_table_name env reply =
     (let asked =
        (case reply table_name_prompt of
           None \<Rightarrow> ([Prompted table_name_prompt False], Inl (Uncaught ''EOFError''))
         | Some v \<Rightarrow>
             ([Prompted table_name_prompt False], Inr (if v = [] then default_table_name else v)))
      in case env ''SUPABASE_TABLE_NAME'' of
           None \<Rightarrow> asked
         | Some v \<Rightarrow> if v = [] then asked else ([], Inr v))"

text \<open>Lines 27 to 34 of \<open>run_bot\<close>: the six settings, in the order the code resolves them.\<close>

definition resolve_configuration :: "environ \<Rightarrow> operator \<Rightarrow> RuntimeConfig step" where
  "resolve_configuration env reply =
     then_step (get_env_variable env reply ''SLACK_BOT_TOKEN'' ''Enter Slack Bot Token (xoxb-)'' True)
       (\<lambda>bot_token. then_step
          (get_env_variable env reply ''SLACK_APP_TOKEN'' ''Enter Slack App Token (xapp-)'' True)
       (\<lambda>app_token. then_step
          (get_env_variable env reply ''SUPABASE_URL'' ''Enter Supabase Project URL'' False)
       (\<lambda>url. then_step
          (get_env_variable env reply ''SUPABASE_SERVICE_KEY'' ''Enter Supabase Service Role Key'' True)
       (\<lambda>key. then_step
          (get_env_variable env reply ''TARGET_SLACK_USER_ID''
             ''Enter Target Slack User ID (e.g., UXXXXXXXXXX)'' False)
       (\<lambda>target. then_step (get_table_name env reply)
       (\<lambda>table. ([], Inr \<lparr>SLACK_BOT_TOKEN = bot_token, SLACK_APP_TOKEN = app_token, SUPABASE_URL = url,
                           SUPABASE_SERVICE_KEY = key, TARGET_SLACK_USER_ID = target,
                           SUPABASE_TABLE_NAME = table\<rparr>)))))))"

text \<open>
  The constructors of the two vendor clients are outside this repository: each is a
  parameter that tells whether the call raises (\<open>Some\<close> the exception's text) or returns.
\<close>

record services =
  app_raises :: "string \<Rightarrow> string option"
  create_client_raises :: "string \<Rightarrow> string \<Rightarrow> string option"

datatype outcome = Exited nat | Serving RuntimeConfig | ShutDown

text \<open>The \<open>try\<close> block of \<open>run_bot\<close> up to the blocking \<open>socket_handler.start()\<close>.\<close>

definition serve :: "services \<Rightarrow> RuntimeConfig \<Rightarrow> effect list \<times> outcome" where
  "serve svc cfg =
     (let failed = (\<lambda>e. [Logged CRITICAL (''A critical error occurred: '' @ e),
                          Logged INFO ''Bot has shut down or encountered a critical error.''])
      in case app_raises svc (SLACK_BOT_TOKEN cfg) of
           Some e \<Rightarrow> (failed e, ShutDown)
         | None \<Rightarrow>
            (case create_client_raises svc (SUPABASE_URL cfg) (SUPABASE_SERVICE_KEY cfg) of
               Some e \<Rightarrow> (ConstructedApp (SLACK_BOT_TOKEN cfg) # failed e, ShutDown)
             | None \<Rightarrow>
                ([ConstructedApp (SLACK_BOT_TOKEN cfg),
                  CreatedClient (SUPABASE_URL cfg) (SUPABASE_SERVICE_KEY cfg),
                  Logged INFO (''Supabase client initialized for URL: '' @ SUPABASE_URL cfg),
                  Logged INFO (''Monitoring messages from Slack User ID: ''
                                 @ TARGET_SLACK_USER_ID cfg),
                  Logged INFO (''Storing messages in Supabase table: '' @ SUPABASE_TABLE_NAME cfg),
                  RegisteredHandler (TARGET_SLACK_USER_ID cfg) (SUPABASE_TABLE_NAME cfg),
                  ConstructedSocketModeHandler (SLACK_APP_TOKEN cfg),
                  Logged INFO ''Connecting to Slack via Socket Mode...'',
                  StartedListening],
                 Serving cfg)))"

definition run_bot :: "services \<Rightarrow> environ \<Rightarrow> operator \<Rightarrow> effect list \<times> outcome" where
  "run_bot svc env reply =
     (case resolve_configuration env reply of
        (tr, Inl t) \<Rightarrow> (tr, Exited (exit_status t))
      | (tr, Inr cfg) \<Rightarrow>
          (case serve svc cfg of
             (tr', out) \<Rightarrow>
               (tr @ Logged INFO ''Initializing Deshi Knowledge Collector Bot...'' # tr', out)))"

text \<open>An effect that constructs a client or a listener.\<close>

fun constructs :: "effect \<Rightarrow> bool" where
  "constructs (ConstructedApp _) = True"
| "constructs (CreatedClient _ _) = True"
| "constructs (RegisteredHandler _ _) = True"
| "constructs (ConstructedSocketModeHandler _) = True"
| "constructs StartedListening = True"
| "constructs (Prompted _ _) = False"
| "constructs (Logged _ _) = False"

definition mandatory :: "string list" where
  "mandatory = [''SLACK_BOT_TOKEN'', ''SLACK_APP_TOKEN'', ''SUPABASE_URL'',
                ''SUPABASE_SERVICE_KEY'', ''TARGET_SLACK_USER_ID'']"

text \<open>The prompt \<open>run_bot\<close> shows for a mandatory setting, as \<open>input\<close> receives it.\<close>

definition prompt_of :: "string \<Rightarrow> string" where
  "prompt_of var_name =
     (if var_name = ''SLACK_BOT_TOKEN'' then ''Enter Slack Bot Token (xoxb-): ''
      else if var_name = ''SLACK_APP_TOKEN'' then ''Enter Slack App Token (xapp-): ''
      else if var_name = ''SUPABASE_URL'' then ''Enter Supabase Project URL: ''
      else if var_name = ''SUPABASE_SERVICE_KEY'' then ''Enter Supabase Service Role Key: ''
      else if var_name = ''TARGET_SLACK_USER_ID''
        then ''Enter Target Slack User ID (e.g., UXXXXXXXXXX): ''
      else table_name_prompt)"

text \<open>\<open>not os.getenv(var_name)\<close>: the variable is unset, or set to the empty string.\<close>

definition unset :: "environ \<Rightarrow> string \<Rightarrow> bool" where
  "unset env var_name = (case env var_name of None \<Rightarrow> True | Some v \<Rightarrow> v = [])"

text \<open>
  Whether \<open>run_bot\<close> asks for a mandatory setting with \<open>getpass\<close> (\<open>is_secret=True\<close>) or
  with \<open>input\<close>.
\<close>

definition secret :: "string \<Rightarrow> bool" where
  "secret var_name =
     (var_name = ''SLACK_BOT_TOKEN'' \<or> var_name = ''SLACK_APP_TOKEN''
      \<or> var_name = ''SUPABASE_SERVICE_KEY'')"

subsection \<open>app.py: the form\<close>

text \<open>The six text inputs of \<open>env_var_form\<close>, as submitted.\<close>

record env_var_form =
  slack_bot_token :: string
  slack_app_token :: string
  supabase_url :: string
  supabase_service_key :: string
  target_slack_user_id :: string
  supabase_table_name :: string

text \<open>\<open>os.getenv(k, d)\<close>: \<open>d\<close> only when the variable is not set at all.\<close>

definition getenv_default :: "environ \<Rightarrow> string \<Rightarrow> string \<Rightarrow> string" where
  "getenv_default env k d = (case env k of None \<Rightarrow> d | Some v \<Rightarrow> v)"

text \<open>What the form shows before the operator touches it.\<close>

definition initial_form :: "environ \<Rightarrow> env_var_form" where
  "initial_form env =
     \<lparr>slack_bot_token = getenv_default env ''SLACK_BOT_TOKEN'' [],
      slack_app_token = getenv_default env ''SLACK_APP_TOKEN'' [],
      supabase_url = getenv_default env ''SUPABASE_URL'' [],
      supabase_service_key = getenv_default env ''SUPABASE_SERVICE_KEY'' [],
      target_slack_user_id = getenv_default env ''TARGET_SLACK_USER_ID'' [],
      supabase_table_name = getenv_default env ''SUPABASE_TABLE_NAME'' default_table_name\<rparr>"

definition missing :: "env_var_form \<Rightarrow> string list" where
  "missing f =
     (if slack_bot_token f = [] then [''Slack Bot Token''] else [])
     @ (if slack_app_token f = [] then [''Slack App Token''] else [])
     @ (if supabase_url f = [] then [''Supabase URL''] else [])
     @ (if supabase_service_key f = [] then [''Supabase Service Key''] else [])
     @ (if target_slack_user_id f = [] then [''Target Slack User ID''] else [])"

text \<open>
  \<open>if submitted:\<close> the fields that are missing (shown by \<open>st.error\<close>, the form stays), or
  the dict stored as \<open>st.session_state.config\<close>.
\<close>

definition save_configuration :: "env_var_form \<Rightarrow> string list + (string \<rightharpoonup> string)" where
  "save_configuration f =
     (let critical_missing = missing f
      in if critical_missing \<noteq> [] then Inl critical_missing
         else Inr [''SLACK_BOT_TOKEN'' \<mapsto> slack_bot_token f,
                   ''SLACK_APP_TOKEN'' \<mapsto> slack_app_token f,
                   ''SUPABASE_URL'' \<mapsto> supabase_url f,
                   ''SUPABASE_SERVICE_KEY'' \<mapsto> supabase_service_key f,
                   ''TARGET_SLACK_USER_ID'' \<mapsto> target_slack_user_id f,
                   ''SUPABASE_TABLE_NAME'' \<mapsto>
                     (if supabase_table_name f = [] then default_table_name
                      else supabase_table_name f)])"

text \<open>
  Lines 41 to 46 of \<open>start_slack_bot_listener\<close>: \<open>config[k]\<close> raises \<open>KeyError\<close> on a
  missing key, \<open>config.get(k, d)\<close> gives the default.
\<close>

definition subscript :: "(string \<rightharpoonup> string) \<Rightarrow> string \<Rightarrow> string + string" where
  "subscript d k = (case d k of None \<Rightarrow> Inl (key_error k) | Some v \<Rightarrow> Inr v)"

definition read_config :: "(string \<rightharpoonup> string) \<Rightarrow> string + RuntimeConfig" where
  "read_config d =
     (case subscript d ''SLACK_BOT_TOKEN'' of
        Inl e \<Rightarrow> Inl e
      | Inr bot_token \<Rightarrow>
     (case subscript d ''SLACK_APP_TOKEN'' of
        Inl e \<Rightarrow> Inl e
      | Inr app_token \<Rightarrow>
     (case subscript d ''SUPABASE_URL'' of
        Inl e \<Rightarrow> Inl e
      | Inr url \<Rightarrow>
     (case subscript d ''SUPABASE_SERVICE_KEY'' of
        Inl e \<Rightarrow> Inl e
      | Inr key \<Rightarrow>
     (case subscript d ''TARGET_SLACK_USER_ID'' of
        Inl e \<Rightarrow> Inl e
      | Inr target \<Rightarrow>
          Inr \<lparr>SLACK_BOT_TOKEN = bot_token, SLACK_APP_TOKEN = app_token, SUPABASE_URL = url,
               SUPABASE_SERVICE_KEY = key, TARGET_SLACK_USER_ID = target,
               SUPABASE_TABLE_NAME =
                 (case d ''SUPABASE_TABLE_NAME'' of
                    None \<Rightarrow> default_table_name
                  | Some v \<Rightarrow> v)\<rparr>)))))"

text \<open>
  The configuration the interactive host runs with, from a submitted form: the saved dict
  as the listener reads it. \<open>None\<close> when the form is refused.
\<close>

definition form_config :: "env_var_form \<Rightarrow> RuntimeConfig option" where
  "form_config f =
     (case save_configuration f of
        Inl _ \<Rightarrow> None
      | Inr d \<Rightarrow> (case read_config d of Inl _ \<Rightarrow> None | Inr cfg \<Rightarrow> Some cfg))"

text \<open>The configuration the console host runs with, \<open>None\<close> when it exits instead.\<close>

definition console_config :: "environ \<Rightarrow> operator \<Rightarrow> RuntimeConfig option" where
  "console_config env reply =
     (case resolve_configuration env reply of (_, Inl _) \<Rightarrow> None | (_, Inr cfg) \<Rightarrow> Some cfg)"

text \<open>
  The same inputs given to the form: each field holds the variable's value when the
  environment sets one, and otherwise what the operator types for that setting (\<open>typed\<close>,
  by variable name).
\<close>

definition supplied :: "environ \<Rightarrow> (string \<Rightarrow> string) \<Rightarrow> string \<Rightarrow> string" where
  "supplied env typed var_name = (if unset env var_name then typed var_name else getenv_default env var_name [])"

definition filled_form :: "environ \<Rightarrow> (string \<Rightarrow> string) \<Rightarrow> env_var_form" where
  "filled_form env typed =
     \<lparr>slack_bot_token = supplied env typed ''SLACK_BOT_TOKEN'',
      slack_app_token = supplied env typed ''SLACK_APP_TOKEN'',
      supabase_url = supplied env typed ''SUPABASE_URL'',
      supabase_service_key = supplied env typed ''SUPABASE_SERVICE_KEY'',
      target_slack_user_id = supplied env typed ''TARGET_SLACK_USER_ID'',
      supabase_table_name = supplied env typed ''SUPABASE_TABLE_NAME''\<rparr>"

text \<open>The same operator at the console: the reply to a prompt is what is typed for its setting.\<close>

definition replies :: "(string \<Rightarrow> string) \<Rightarrow> operator" where
  "replies typed p =
     (if p = prompt_of ''SLACK_BOT_TOKEN'' then Some (typed ''SLACK_BOT_TOKEN'')
      else if p = prompt_of ''SLACK_APP_TOKEN'' then Some (typed ''SLACK_APP_TOKEN'')
      else if p = prompt_of ''SUPABASE_URL'' then Some (typed ''SUPABASE_URL'')
      else if p = prompt_of ''SUPABASE_SERVICE_KEY'' then Some (typed ''SUPABASE_SERVICE_KEY'')
      else if p = prompt_of ''TARGET_SLACK_USER_ID'' then Some (typed ''TARGET_SLACK_USER_ID'')
      else if p = table_name_prompt then Some (typed ''SUPABASE_TABLE_NAME'')
      else Some [])"

section \<open>The interactive host: session state, background thread, buttons\<close>

text \<open>
  The thread that runs \<open>start_slack_bot_listener\<close> is alive while it blocks in
  \<open>handler.start()\<close>, with the callback registered for the target user and table it read
  from the configuration; otherwise it has finished.
\<close>

datatype thread = Listening string string | Finished

fun is_alive :: "thread \<Rightarrow> bool" where
  "is_alive (Listening _ _) = True"
| "is_alive Finished = False"

text \<open>
  \<open>st.session_state\<close>, with the world the thread acts on; the capture buffer of that
  world is \<open>st.session_state.streamlit_log_handler\<close>, shared by both sides.
\<close>

record 'st system =
  env_vars_confirmed :: bool
  bot_started :: bool
  bot_thread :: "thread option"
  stop_event :: bool
  config :: "(string \<rightharpoonup> string) option"
  background :: "'st world"

definition announce :: "string \<Rightarrow> 'st world \<Rightarrow> 'st world" where
  "announce msg w = capture_write (msg @ ''\<newline>'') (logger_info msg w)"

text \<open>The \<open>except\<close> and \<open>finally\<close> clauses of \<open>start_slack_bot_listener\<close>.\<close>

definition thread_failed :: "string \<Rightarrow> 'st world \<Rightarrow> 'st world" where
  "thread_failed e w =
     (let err_msg = ''Critical error in bot thread: '' @ e
      in announce ''Bot thread attempting to clean up and exit.''
           (capture_write (''CRITICAL ERROR: '' @ err_msg @ ''\<newline>'') (logger_error err_msg w)))"

text \<open>
  \<open>start_slack_bot_listener(config, stop_event, log_capture_buffer)\<close> up to the blocking
  \<open>handler.start()\<close>: the thread's state and the world it leaves. The parameter
  \<open>stop_event\<close> is received as the source receives it.
\<close>

definition start_slack_bot_listener ::
  "services \<Rightarrow> (string \<rightharpoonup> string) \<Rightarrow> bool \<Rightarrow> 'st world \<Rightarrow> thread \<times> 'st world" where
  "start_slack_bot_listener svc config_dict stop_event_flag w =
     (case read_config config_dict of
        Inl e \<Rightarrow> (Finished, w)
      | Inr cfg \<Rightarrow>
          (let w0 = announce ''Bot thread started. Initializing Slack and Supabase clients...'' w
           in case app_raises svc (SLACK_BOT_TOKEN cfg) of
                Some e \<Rightarrow> (Finished, thread_failed e w0)
              | None \<Rightarrow>
                 (case create_client_raises svc (SUPABASE_URL cfg) (SUPABASE_SERVICE_KEY cfg) of
                    Some e \<Rightarrow> (Finished, thread_failed e w0)
                  | None \<Rightarrow>
                     (Listening (TARGET_SLACK_USER_ID cfg) (SUPABASE_TABLE_NAME cfg),
                      announce ''Starting SocketModeHandler...''
                        (announce (''Storing messages in Supabase table: '' @ SUPABASE_TABLE_NAME cfg)
                          (announce (''Monitoring messages from Slack User ID: ''
                                       @ TARGET_SLACK_USER_ID cfg)
                            (announce (''Supabase client initialized for URL: '' @ SUPABASE_URL cfg)
                               w0)))))))"

text \<open>The transport delivers one message event to the listener, if one is listening.\<close>

definition deliver :: "'st insert_fn \<Rightarrow> pydict \<Rightarrow> 'st system \<Rightarrow> 'st system" where
  "deliver ins event s =
     (case bot_thread s of
        Some (Listening target table) \<Rightarrow>
          s\<lparr>background := handle_message_events_app ins target table event (background s)\<rparr>
      | Some Finished \<Rightarrow> s
      | None \<Rightarrow> s)"

fun deliver_all :: "'st insert_fn \<Rightarrow> pydict list \<Rightarrow> 'st system \<Rightarrow> 'st system" where
  "deliver_all ins [] s = s"
| "deliver_all ins (e # es) s = deliver_all ins es (deliver ins e s)"

text \<open>The button "Save Configuration", shown while the configuration is not confirmed.\<close>

definition click_save :: "env_var_form \<Rightarrow> 'st system \<Rightarrow> 'st system" where
  "click_save f s =
     (if env_vars_confirmed s then s
      else case save_configuration f of
             Inl _ \<Rightarrow> s
           | Inr d \<Rightarrow> s\<lparr>config := Some d, env_vars_confirmed := True\<rparr>)"

text \<open>
  The button \<open>start_bot\<close>, shown when the configuration is confirmed and no bot is started.
  The thread's start-up runs to the blocking call before the button returns. Reading
  \<open>st.session_state.config\<close> fails when nothing was saved, after the log and the flag have
  been cleared.
\<close>

definition start_bot :: "services \<Rightarrow> 'st system \<Rightarrow> 'st system" where
  "start_bot svc s =
     (if env_vars_confirmed s \<and> \<not> bot_started s
      then
        (if (case bot_thread s of None \<Rightarrow> True | Some t \<Rightarrow> \<not> is_alive t)
         then
           (let cleared = (background s)\<lparr>capture := clear_logs (capture (background s))\<rparr>
            in case config s of
                 None \<Rightarrow> s\<lparr>stop_event := False, background := cleared\<rparr>
               | Some d \<Rightarrow>
                   (case start_slack_bot_listener svc d False cleared of
                      (t, w) \<Rightarrow>
                        s\<lparr>stop_event := False, bot_thread := Some t, bot_started := True,
                          background := w\<rparr>))
         else s)
      else s)"

text \<open>The button \<open>stop_bot\<close> ("Reset Configuration"), shown while a bot is started.\<close>

definition stop_bot :: "'st system \<Rightarrow> 'st system" where
  "stop_bot s =
     (if env_vars_confirmed s \<and> bot_started s
      then s\<lparr>stop_event := True, bot_started := False, env_vars_confirmed := False,
             background := capture_write ''UI Stop requested. Resetting configuration.\<newline>''
                             (background s)\<rparr>
      else s)"

section \<open>A store with a uniqueness constraint\<close>

text \<open>
  Modelled from the spec: the hosted data store, which is not part of the repository.
  Section 3 of the specification gives \<open>slack_message_ts\<close> a uniqueness constraint at the
  storage layer and has the store assign \<open>id\<close>; section 6 has a rejected insert return an
  error whose message indicates the violation. The handlers take the store as a
  parameter; this one serves to run them on concrete inputs.
\<close>

record stored =
  in_table :: string
  row_id :: nat
  content :: row

fun decimal :: "nat \<Rightarrow> string" where
  "decimal n =
     (if n < 10 then [char_of (48 + n)] else decimal (n div 10) @ [char_of (48 + n mod 10)])"

declare decimal.simps [simp del]

definition unique_store :: "stored list insert_fn" where
  "unique_store st table r =
     (if list_ex (\<lambda>x. in_table x = table \<and> slack_message_ts (content x) = slack_message_ts r) st
      then (Returned \<lparr>data = [],
                      error = Some \<lparr>message = PyStr ''duplicate key value violates unique constraint slack_message_ts_key'',
                                    shown = ''APIError 23505''\<rparr>\<rparr>,
            st)
      else (Returned \<lparr>data = [[''id'' \<mapsto> PyStr (decimal (Suc (length st))),
                               ''slack_message_ts'' \<mapsto> slack_message_ts r]],
                      error = None\<rparr>,
            st @ [\<lparr>in_table = table, row_id = Suc (length st), content = r\<rparr>]))"



definition empty_world :: "'st \<Rightarrow> 'st world" where
  "empty_world st =
     \<lparr>records = [], capture = \<lparr>buffer = [], stdout_echo = []\<rparr>, store = st, inserts = []\<rparr>"

text \<open>The event of the specification's example, from the target user \<open>U_target\<close>.\<close>

definition hello_event :: pydict where
  "hello_event = [''user'' \<mapsto> PyStr ''U_target'', ''text'' \<mapsto> PyStr ''hello'',
                  ''channel'' \<mapsto> PyStr ''C1'', ''ts'' \<mapsto> PyStr ''T1'']"

section \<open>Concrete inputs\<close>

text \<open>Vendor clients whose constructors succeed.\<close>

definition working_services :: services where
  "working_services = \<lparr>app_raises = (\<lambda>token. None), create_client_raises = (\<lambda>url key. None)\<rparr>"

text \<open>An environment that sets every variable except \<open>SLACK_BOT_TOKEN\<close>.\<close>

definition partial_env :: environ where
  "partial_env = [''SLACK_APP_TOKEN'' \<mapsto> ''xapp-1'', ''SUPABASE_URL'' \<mapsto> ''https://db.example'',
                  ''SUPABASE_SERVICE_KEY'' \<mapsto> ''service-key'',
                  ''TARGET_SLACK_USER_ID'' \<mapsto> ''U_target'',
                  ''SUPABASE_TABLE_NAME'' \<mapsto> ''messages'']"

text \<open>An operator who types the bot token when asked, and one who only presses return.\<close>

definition types_token :: operator where
  "types_token p = Some ''xoxb-1''"

definition presses_return :: operator where
  "presses_return p = Some []"

text \<open>What an operator types for each setting: the bot token, and nothing else.\<close>

definition typed_token :: "string \<Rightarrow> string" where
  "typed_token var_name = (if var_name = ''SLACK_BOT_TOKEN'' then ''xoxb-1'' else [])"

text \<open>A form filled in but for the table name, and a session before anything is saved.\<close>

definition sample_form :: env_var_form where
  "sample_form =
     \<lparr>slack_bot_token = ''xoxb-1'', slack_app_token = ''xapp-1'',
      supabase_url = ''https://db.example'', supabase_service_key = ''service-key'',
      target_slack_user_id = ''U_target'', supabase_table_name = []\<rparr>"

definition fresh_session :: "'st \<Rightarrow> 'st system" where
  "fresh_session st =
     \<lparr>env_vars_confirmed = False, bot_started = False, bot_thread = None, stop_event = False,
      config = None, background = empty_world st\<rparr>"

text \<open>The session after "Save Configuration" and "Start Bot Listener".\<close>

definition running_session :: "stored list system" where
  "running_session = start_bot working_services (click_save sample_form (fresh_session []))"

section \<open>Properties of the message handler\<close>

lemmas world_ops = capture_write_def logger_info_def logger_warning_def logger_error_def

lemma relevant_hello: "relevant ''U_target'' hello_event"
  by (simp add: relevant_def hello_event_def dict_get_def)

lemma duplicate_message_violation:
  "unique_violation \<lparr>message = PyStr ''duplicate key value violates unique constraint slack_message_ts_key'',
                      shown = s\<rparr>"
  by (simp add: unique_violation_def lower_def lower_char_def)


lemma decimal_1: "decimal (Suc 0) = ''1''"
  by code_simp



lemma app_duplicate:
  assumes "relevant target event"
    and "ins (store w) table (data_to_insert event) = (Returned resp, st')"
    and "data resp = []" and "error resp = Some err" and "unique_violation err"
  shows "filter (\<lambda>r. fst r \<noteq> INFO) (records (handle_message_events_app ins target table event w))
           = filter (\<lambda>r. fst r \<noteq> INFO) (records w)
             @ [(WARNING, ''Supabase insert did not return data: '' @ shown err),
                (WARNING, ''Duplicate message (slack_message_ts: ''
                            @ py_str (dict_get event ''ts'') @ '') not inserted.'')]"
    and "store (handle_message_events_app ins target table event w) = st'"
  using assms
  by (simp_all add: handle_message_events_app_def app_try_def execute_insert_def Let_def world_ops
        error_info_def)

lemma console_duplicate:
  assumes "relevant target event"
    and "ins (store w) table (data_to_insert event) = (Returned resp, st')"
    and "data resp = []" and "error resp = Some err" and "unique_violation err"
  shows "filter (\<lambda>r. fst r \<noteq> INFO) (records (handle_message_events_console ins target table event w))
           = filter (\<lambda>r. fst r \<noteq> INFO) (records w)
             @ [(WARNING, ''Supabase insert did not return data: '' @ shown err),
                (WARNING, ''Duplicate message (slack_message_ts: ''
                            @ py_str (dict_get event ''ts'') @ '') not inserted.'')]"
    and "store (handle_message_events_console ins target table event w) = st'"
  using assms
  by (simp_all add: handle_message_events_console_def console_try_def execute_insert_def Let_def
        world_ops error_info_def)



lemma handle_inserts:
  "relevant target event \<Longrightarrow>
   inserts (handle_message_events h ins target table event w)
     = inserts w @ [(table, data_to_insert event)]"
  by (cases h)
     (auto simp: handle_message_events_app_def app_try_def handle_message_events_console_def
        console_try_def execute_insert_def Let_def world_ops
      split: prod.splits insert_result.splits list.splits option.splits)

lemma handle_received:
  "relevant target event \<Longrightarrow>
   \<exists>rest. records (handle_message_events h ins target table event w)
     = records w @ (INFO, ''Received message from target user ('' @ py_str (dict_get event ''user'')
                       @ '') in channel ('' @ py_str (dict_get event ''channel'')
                       @ ''): '' @ apostrophe
                       @ py_slice_to (preview_length h) (dict_get event ''text'')
                       @ ''...'' @ apostrophe) # rest"
  by (cases h)
     (auto simp: handle_message_events_app_def app_try_def handle_message_events_console_def
        console_try_def execute_insert_def Let_def world_ops
      split: prod.splits insert_result.splits list.splits option.splits)

lemma relevant_fields:
  "relevant target event \<longleftrightarrow>
     (event ''subtype'' = None \<or> event ''subtype'' = Some PyNone)
     \<and> event ''user'' = Some (PyStr target)
     \<and> (\<exists>s. s \<noteq> [] \<and> event ''text'' = Some (PyStr s))"
  by (auto simp: relevant_def dict_get_def split: option.splits pyval.splits elim: truthy.elims)

lemma handle_irrelevant:
  "\<not> relevant target event \<Longrightarrow> handle_message_events h ins target table event w = w"
  by (cases h) (simp_all add: handle_message_events_app_def handle_message_events_console_def)

text \<open>
  Claim C1. In both hosts the handler acts only on an event whose subtype is absent (the
  key is missing or holds \<open>None\<close>), whose user is exactly the target user and whose text is
  a non-empty string. For any other event the world after the handler is the world
  before it: no insert is issued, the store is untouched, nothing is logged or written
  to the capture buffer, and the handler returns.
\<close>

theorem irrelevant_event_is_no_op:
  assumes "\<not> ((event ''subtype'' = None \<or> event ''subtype'' = Some PyNone)
              \<and> event ''user'' = Some (PyStr target)
              \<and> (\<exists>s. s \<noteq> [] \<and> event ''text'' = Some (PyStr s)))"
  shows "handle_message_events h ins target table event w = w"
  using assms handle_irrelevant [of target event] relevant_fields [of target event] by blast

theorem irrelevant_event_is_no_op_witness:
  "handle_message_events App unique_store ''U_target'' ''slack_messages_for_sensay''
     (hello_event(''subtype'' \<mapsto> PyStr ''message_changed'')) (empty_world [])
     = empty_world []
   \<and> handle_message_events Console unique_store ''U_target'' ''slack_messages_for_sensay''
     (hello_event(''user'' \<mapsto> PyStr ''u_target'')) (empty_world [])
     = empty_world []
   \<and> handle_message_events App unique_store ''U_target'' ''slack_messages_for_sensay''
     (hello_event(''text'' \<mapsto> PyStr [])) (empty_world [])
     = empty_world []"
  by (intro conjI irrelevant_event_is_no_op) (simp_all add: hello_event_def)

text \<open>
  Claim C2. For an event that passes the condition, the handler of either host issues
  exactly one insert, against the configured table, and the row holds the event's user,
  channel, text and timestamp token. On the specification's example the one row is
  \<open>{U_target, C1, hello, T1}\<close>.
\<close>

theorem relevant_event_one_insert:
  assumes "relevant target event"
  shows "inserts (handle_message_events h ins target table event w)
           = inserts w @ [(table, \<lparr>slack_user_id = dict_get event ''user'',
                                     slack_channel_id = dict_get event ''channel'',
                                     message_content = dict_get event ''text'',
                                     slack_message_ts = dict_get event ''ts''\<rparr>)]"
  using handle_inserts [OF assms] by (simp add: data_to_insert_def)

theorem relevant_event_one_insert_witness:
  "inserts (handle_message_events App unique_store ''U_target'' ''slack_messages_for_sensay''
              hello_event (empty_world []))
     = [(''slack_messages_for_sensay'',
         \<lparr>slack_user_id = PyStr ''U_target'', slack_channel_id = PyStr ''C1'',
          message_content = PyStr ''hello'', slack_message_ts = PyStr ''T1''\<rparr>)]
   \<and> inserts (handle_message_events Console unique_store ''U_target'' ''slack_messages_for_sensay''
              hello_event (empty_world []))
     = [(''slack_messages_for_sensay'',
         \<lparr>slack_user_id = PyStr ''U_target'', slack_channel_id = PyStr ''C1'',
          message_content = PyStr ''hello'', slack_message_ts = PyStr ''T1''\<rparr>)]"
  using relevant_event_one_insert
          [OF relevant_hello, of App unique_store "''slack_messages_for_sensay''" "empty_world []"]
        relevant_event_one_insert
          [OF relevant_hello, of Console unique_store "''slack_messages_for_sensay''" "empty_world []"]
  by (simp add: hello_event_def dict_get_def empty_world_def del: handle_message_events.simps)

text \<open>
  Claim C3. When the insert for a relevant event returns no row data and an error whose
  message indicates a uniqueness violation, the handler of either host logs two
  warnings, the second naming the event's timestamp token, logs nothing at error level,
  and returns; it has issued the one rejected insert and nothing else, so the store is
  in the state that rejected call left it in. Against a store that enforces the
  constraint, delivering the same event twice leaves one row.
\<close>

theorem duplicate_is_warned_not_failed:
  assumes "relevant target event"
    and "ins (store w) table (data_to_insert event) = (Returned resp, st')"
    and "data resp = []" and "error resp = Some err" and "unique_violation err"
  shows "filter (\<lambda>r. fst r \<noteq> INFO) (records (handle_message_events h ins target table event w))
           = filter (\<lambda>r. fst r \<noteq> INFO) (records w)
             @ [(WARNING, ''Supabase insert did not return data: '' @ shown err),
                (WARNING, ''Duplicate message (slack_message_ts: ''
                            @ py_str (dict_get event ''ts'') @ '') not inserted.'')]
         \<and> store (handle_message_events h ins target table event w) = st'
         \<and> inserts (handle_message_events h ins target table event w)
             = inserts w @ [(table, data_to_insert event)]"
proof -
  have "filter (\<lambda>r. fst r \<noteq> INFO) (records (handle_message_events h ins target table event w))
           = filter (\<lambda>r. fst r \<noteq> INFO) (records w)
             @ [(WARNING, ''Supabase insert did not return data: '' @ shown err),
                (WARNING, ''Duplicate message (slack_message_ts: ''
                            @ py_str (dict_get event ''ts'') @ '') not inserted.'')]"
    using assms by (cases h) (simp_all add: app_duplicate console_duplicate)
  moreover have "store (handle_message_events h ins target table event w) = st'"
    using assms by (cases h) (simp_all add: app_duplicate console_duplicate)
  ultimately show ?thesis
    using handle_inserts [OF assms(1)] by simp
qed

theorem duplicate_is_warned_not_failed_witness:
  "store (handle_message_events App unique_store ''U_target'' ''slack_messages_for_sensay'' hello_event
            (handle_message_events App unique_store ''U_target'' ''slack_messages_for_sensay''
               hello_event (empty_world [])))
     = [\<lparr>in_table = ''slack_messages_for_sensay'', row_id = 1,
         content = \<lparr>slack_user_id = PyStr ''U_target'', slack_channel_id = PyStr ''C1'',
                     message_content = PyStr ''hello'', slack_message_ts = PyStr ''T1''\<rparr>\<rparr>]
   \<and> filter (\<lambda>r. fst r \<noteq> INFO)
       (records (handle_message_events App unique_store ''U_target'' ''slack_messages_for_sensay''
                   hello_event
                   (handle_message_events App unique_store ''U_target''
                      ''slack_messages_for_sensay'' hello_event (empty_world []))))
     = [(WARNING, ''Supabase insert did not return data: APIError 23505''),
        (WARNING, ''Duplicate message (slack_message_ts: T1) not inserted.'')]"
proof -
  let ?t = "''slack_messages_for_sensay''"
  let ?r = "\<lparr>slack_user_id = PyStr ''U_target'', slack_channel_id = PyStr ''C1'',
             message_content = PyStr ''hello'', slack_message_ts = PyStr ''T1''\<rparr>"
  let ?e = "\<lparr>message = PyStr ''duplicate key value violates unique constraint slack_message_ts_key'',
             shown = ''APIError 23505''\<rparr>"
  let ?w1 = "handle_message_events App unique_store ''U_target'' ?t hello_event (empty_world [])"
  have row: "data_to_insert hello_event = ?r"
    by (simp add: data_to_insert_def hello_event_def dict_get_def)
  have first: "unique_store [] ?t ?r
                 = (Returned \<lparr>data = [[''id'' \<mapsto> PyStr ''1'', ''slack_message_ts'' \<mapsto> PyStr ''T1'']],
                               error = None\<rparr>,
                    [\<lparr>in_table = ?t, row_id = 1, content = ?r\<rparr>])"
    by (simp add: unique_store_def decimal_1)
  have stored: "store ?w1 = [\<lparr>in_table = ?t, row_id = 1, content = ?r\<rparr>]"
    using relevant_hello
    by (simp add: handle_message_events_app_def app_try_def execute_insert_def Let_def world_ops
          empty_world_def row first)
  have quiet: "filter (\<lambda>r. fst r \<noteq> INFO) (records ?w1) = []"
    using relevant_hello
    by (simp add: handle_message_events_app_def app_try_def execute_insert_def Let_def world_ops
          empty_world_def row first)
  have again: "unique_store (store ?w1) ?t (data_to_insert hello_event)
                 = (Returned \<lparr>data = [], error = Some ?e\<rparr>, store ?w1)"
    by (simp add: stored row unique_store_def del: handle_message_events.simps)
  have ts: "dict_get hello_event ''ts'' = PyStr ''T1''"
    by (simp add: hello_event_def dict_get_def)
  have dup: "unique_violation ?e"
    by (rule duplicate_message_violation)
  from duplicate_is_warned_not_failed
         [where h = App and ins = unique_store and w = ?w1 and table = ?t and event = hello_event
            and target = "''U_target''" and resp = "\<lparr>data = [], error = Some ?e\<rparr>"
            and st' = "store ?w1" and err = ?e, OF relevant_hello again _ _ dup]
  show ?thesis
    by (simp add: stored quiet ts del: handle_message_events.simps)
qed







lemma handle_reads_through_get:
  assumes "dict_get e1 = dict_get e2"
  shows "handle_message_events h ins target table e1 w
           = handle_message_events h ins target table e2 w"
proof (cases h)
  case App
  show ?thesis
    unfolding App handle_message_events.simps handle_message_events_app_def app_try_def
      relevant_def data_to_insert_def assms
    by (rule refl)
next
  case Console
  show ?thesis
    unfolding Console handle_message_events.simps handle_message_events_console_def
      console_try_def relevant_def data_to_insert_def assms
    by (rule refl)
qed

lemma get_null_subtype:
  assumes "event ''subtype'' = Some PyNone"
  shows "dict_get (event(''subtype'' := None)) = dict_get event"
  using assms by (auto simp: dict_get_def fun_eq_iff)

lemma handle_ignores_null_subtype:
  assumes "event ''subtype'' = Some PyNone"
  shows "handle_message_events h ins target table (event(''subtype'' := None)) w
           = handle_message_events h ins target table event w"
  using assms by (intro handle_reads_through_get get_null_subtype)

text \<open>
  Claim C9. An event whose \<open>subtype\<close> key is present and holds \<open>None\<close> is handled exactly as
  the same event without the key; with the target user and a non-empty text, the insert
  is issued.
\<close>

theorem null_subtype_is_absent_subtype:
  assumes "event ''subtype'' = Some PyNone"
  shows "handle_message_events h ins target table event w
           = handle_message_events h ins target table (event(''subtype'' := None)) w
         \<and> (event ''user'' = Some (PyStr target) \<and> event ''text'' = Some (PyStr s) \<and> s \<noteq> []
              \<longrightarrow> inserts (handle_message_events h ins target table event w)
                    = inserts w @ [(table, data_to_insert event)])"
proof -
  have "relevant target event"
    if "event ''user'' = Some (PyStr target)" "event ''text'' = Some (PyStr s)" "s \<noteq> []"
    using that assms by (simp add: relevant_def dict_get_def)
  moreover have "handle_message_events h ins target table (event(''subtype'' := None)) w
                   = handle_message_events h ins target table event w"
    using assms by (rule handle_ignores_null_subtype)
  ultimately show ?thesis
    using handle_inserts [of target event h ins table w] by simp
qed

theorem null_subtype_is_absent_subtype_witness:
  "inserts (handle_message_events Console unique_store ''U_target'' ''slack_messages_for_sensay''
              (hello_event(''subtype'' \<mapsto> PyNone)) (empty_world []))
     = [(''slack_messages_for_sensay'',
         \<lparr>slack_user_id = PyStr ''U_target'', slack_channel_id = PyStr ''C1'',
          message_content = PyStr ''hello'', slack_message_ts = PyStr ''T1''\<rparr>)]"
proof -
  let ?ev = "hello_event(''subtype'' \<mapsto> PyNone)"
  let ?w0 = "empty_world ([] :: stored list)"
  have null: "?ev ''subtype'' = Some PyNone"
    by simp
  have fields: "?ev ''user'' = Some (PyStr ''U_target'') \<and> ?ev ''text'' = Some (PyStr ''hello'')
                \<and> ''hello'' \<noteq> []"
    by (simp add: hello_event_def)
  have row: "data_to_insert ?ev
               = \<lparr>slack_user_id = PyStr ''U_target'', slack_channel_id = PyStr ''C1'',
                  message_content = PyStr ''hello'', slack_message_ts = PyStr ''T1''\<rparr>"
    by (simp add: data_to_insert_def hello_event_def dict_get_def)
  note at_null = null_subtype_is_absent_subtype
         [where event = ?ev and h = Console and ins = unique_store and target = "''U_target''"
            and table = "''slack_messages_for_sensay''" and w = ?w0
            and s = "''hello''", OF null]
  from conjunct2 [OF at_null] fields
  have "inserts (handle_message_events Console unique_store ''U_target''
                   ''slack_messages_for_sensay'' ?ev ?w0)
          = inserts ?w0 @ [(''slack_messages_for_sensay'', data_to_insert ?ev)]"
    by (rule mp)
  then show ?thesis
    by (simp only: row) (simp add: empty_world_def)
qed

text \<open>
  Claim C10. The row inserted for a relevant event holds the event's whole text, whatever
  its length; only the line that confirms receipt cuts it, to 50 characters in app.py and
  to 70 in console_bot.py.
\<close>

theorem full_text_is_stored:
  assumes "relevant target event" and "dict_get event ''text'' = PyStr text"
  shows "map (\<lambda>c. message_content (snd c)) (inserts (handle_message_events h ins target table event w))
           = map (\<lambda>c. message_content (snd c)) (inserts w) @ [PyStr text]
         \<and> (\<exists>rest. records (handle_message_events h ins target table event w)
               = records w
                 @ (INFO, ''Received message from target user ('' @ target
                            @ '') in channel ('' @ py_str (dict_get event ''channel'')
                            @ ''): '' @ apostrophe @ take (preview_length h) text
                            @ ''...'' @ apostrophe) # rest)"
proof -
  have user: "dict_get event ''user'' = PyStr target"
    using assms(1) by (simp add: relevant_def)
  show ?thesis
    using handle_inserts [OF assms(1), of h ins table w] handle_received [OF assms(1), of h ins table w]
    by (simp add: data_to_insert_def assms(2) user del: handle_message_events.simps)
qed

theorem full_text_is_stored_witness:
  "map (\<lambda>c. message_content (snd c))
     (inserts (handle_message_events Console unique_store ''U_target'' ''slack_messages_for_sensay''
                 (hello_event(''text'' \<mapsto> PyStr (replicate 100 (CHR ''a'')))) (empty_world [])))
     = [PyStr (replicate 100 (CHR ''a''))]
   \<and> length (replicate 100 (CHR ''a'')) = 100"
  using full_text_is_stored
          [of "''U_target''" "hello_event(''text'' \<mapsto> PyStr (replicate 100 (CHR ''a'')))"
              "replicate 100 (CHR ''a'')" Console unique_store "''slack_messages_for_sensay''"
              "empty_world []"]
  by (simp add: relevant_def hello_event_def dict_get_def empty_world_def
        del: handle_message_events.simps)

section \<open>Properties of the log buffer\<close>

lemma fold_log_write:
  "fold log_write msgs h
     = h\<lparr>buffer := buffer h @ msgs, stdout_echo := stdout_echo h @ msgs\<rparr>"
  by (induction msgs arbitrary: h) (simp_all add: log_write_def)

text \<open>
  Claim C7. After any sequence of writes, the buffer holds what it held before followed by
  the written entries, each whole and in the order written, and \<open>get_logs\<close> returns their
  concatenation; starting from a cleared buffer it returns exactly the entries written.
\<close>

theorem log_buffer_keeps_every_write:
  "buffer (fold log_write msgs h) = buffer h @ msgs
   \<and> get_logs (fold log_write msgs h) = get_logs h @ concat msgs
   \<and> get_logs (fold log_write msgs (clear_logs h)) = concat msgs"
  by (simp add: fold_log_write get_logs_def clear_logs_def)

section \<open>Properties of the interactive host\<close>

lemma start_ignores_flag:
  "start_slack_bot_listener svc cfg b w = start_slack_bot_listener svc cfg b' w"
  by (simp add: start_slack_bot_listener_def)

lemma deliver_stop_event:
  "deliver ins ev (s\<lparr>stop_event := b\<rparr>) = (deliver ins ev s)\<lparr>stop_event := b\<rparr>"
  by (simp add: deliver_def split: option.splits thread.splits)

lemma deliver_all_stop_event:
  "deliver_all ins evs (s\<lparr>stop_event := b\<rparr>) = (deliver_all ins evs s)\<lparr>stop_event := b\<rparr>"
  by (induction evs arbitrary: s) (simp_all add: deliver_stop_event)

lemma app_capture_irrelevant:
  "store (handle_message_events_app ins target table ev (w\<lparr>capture := c\<rparr>))
     = store (handle_message_events_app ins target table ev w)
   \<and> inserts (handle_message_events_app ins target table ev (w\<lparr>capture := c\<rparr>))
     = inserts (handle_message_events_app ins target table ev w)
   \<and> records (handle_message_events_app ins target table ev (w\<lparr>capture := c\<rparr>))
     = records (handle_message_events_app ins target table ev w)"
  by (simp add: handle_message_events_app_def app_try_def execute_insert_def Let_def world_ops
      split: prod.splits insert_result.splits list.splits option.splits)

lemma app_agree:
  assumes "store w = store w'" and "inserts w = inserts w'" and "records w = records w'"
  shows "store (handle_message_events_app ins target table ev w)
           = store (handle_message_events_app ins target table ev w')
         \<and> inserts (handle_message_events_app ins target table ev w)
           = inserts (handle_message_events_app ins target table ev w')
         \<and> records (handle_message_events_app ins target table ev w)
           = records (handle_message_events_app ins target table ev w')"
proof -
  have "w' = w\<lparr>capture := capture w'\<rparr>"
    using assms by (cases w, cases w') simp
  then show ?thesis
    using app_capture_irrelevant [where w = w and c = "capture w'"] by metis
qed

lemma deliver_agree:
  assumes "bot_thread s = bot_thread s'"
    and "store (background s) = store (background s')"
    and "inserts (background s) = inserts (background s')"
    and "records (background s) = records (background s')"
  shows "bot_thread (deliver ins ev s) = bot_thread (deliver ins ev s')
         \<and> store (background (deliver ins ev s)) = store (background (deliver ins ev s'))
         \<and> inserts (background (deliver ins ev s)) = inserts (background (deliver ins ev s'))
         \<and> records (background (deliver ins ev s)) = records (background (deliver ins ev s'))"
proof (cases "bot_thread s'")
  case None
  with assms show ?thesis
    by (simp add: deliver_def)
next
  case (Some t)
  show ?thesis
  proof (cases t)
    case (Listening target table)
    with Some assms app_agree [OF assms(2-4), of ins target table ev] show ?thesis
      by (simp add: deliver_def)
  next
    case Finished
    with Some assms show ?thesis
      by (simp add: deliver_def)
  qed
qed

lemma deliver_all_agree:
  assumes "bot_thread s = bot_thread s'"
    and "store (background s) = store (background s')"
    and "inserts (background s) = inserts (background s')"
    and "records (background s) = records (background s')"
  shows "bot_thread (deliver_all ins evs s) = bot_thread (deliver_all ins evs s')
         \<and> store (background (deliver_all ins evs s)) = store (background (deliver_all ins evs s'))
         \<and> inserts (background (deliver_all ins evs s)) = inserts (background (deliver_all ins evs s'))
         \<and> records (background (deliver_all ins evs s)) = records (background (deliver_all ins evs s'))"
  using assms
proof (induction evs arbitrary: s s')
  case Nil
  then show ?case by simp
next
  case (Cons ev evs)
  have step: "bot_thread (deliver ins ev s) = bot_thread (deliver ins ev s')
         \<and> store (background (deliver ins ev s)) = store (background (deliver ins ev s'))
         \<and> inserts (background (deliver ins ev s)) = inserts (background (deliver ins ev s'))
         \<and> records (background (deliver ins ev s)) = records (background (deliver ins ev s'))"
    using Cons.prems by (rule deliver_agree)
  have "bot_thread (deliver_all ins evs (deliver ins ev s))
          = bot_thread (deliver_all ins evs (deliver ins ev s'))
        \<and> store (background (deliver_all ins evs (deliver ins ev s)))
          = store (background (deliver_all ins evs (deliver ins ev s')))
        \<and> inserts (background (deliver_all ins evs (deliver ins ev s)))
          = inserts (background (deliver_all ins evs (deliver ins ev s')))
        \<and> records (background (deliver_all ins evs (deliver ins ev s)))
          = records (background (deliver_all ins evs (deliver ins ev s')))"
    using step by (intro Cons.IH) (elim conjE, assumption)+
  then show ?case
    by (simp only: deliver_all.simps)
qed

lemma stop_bot_keeps:
  "bot_thread (stop_bot s) = bot_thread s"
  "config (stop_bot s) = config s"
  "store (background (stop_bot s)) = store (background s)"
  "inserts (background (stop_bot s)) = inserts (background s)"
  "records (background (stop_bot s)) = records (background s)"
  by (simp_all add: stop_bot_def capture_write_def)

lemma saved_session:
  "click_save sample_form (fresh_session st)
     = \<lparr>env_vars_confirmed = True, bot_started = False, bot_thread = None,
        stop_event = False,
        config = Some [''SLACK_BOT_TOKEN'' \<mapsto> ''xoxb-1'',
                   ''SLACK_APP_TOKEN'' \<mapsto> ''xapp-1'',
                   ''SUPABASE_URL'' \<mapsto> ''https://db.example'',
                   ''SUPABASE_SERVICE_KEY'' \<mapsto> ''service-key'',
                   ''TARGET_SLACK_USER_ID'' \<mapsto> ''U_target'',
                   ''SUPABASE_TABLE_NAME'' \<mapsto> ''slack_messages_for_sensay''],
        background = empty_world st\<rparr>"
  by (simp add: click_save_def fresh_session_def save_configuration_def missing_def
        sample_form_def default_table_name_def)

lemma sample_config:
  "read_config [''SLACK_BOT_TOKEN'' \<mapsto> ''xoxb-1'',
                   ''SLACK_APP_TOKEN'' \<mapsto> ''xapp-1'',
                   ''SUPABASE_URL'' \<mapsto> ''https://db.example'',
                   ''SUPABASE_SERVICE_KEY'' \<mapsto> ''service-key'',
                   ''TARGET_SLACK_USER_ID'' \<mapsto> ''U_target'',
                   ''SUPABASE_TABLE_NAME'' \<mapsto> ''slack_messages_for_sensay'']
     = Inr \<lparr>SLACK_BOT_TOKEN = ''xoxb-1'', SLACK_APP_TOKEN = ''xapp-1'',
            SUPABASE_URL = ''https://db.example'', SUPABASE_SERVICE_KEY = ''service-key'',
            TARGET_SLACK_USER_ID = ''U_target'',
            SUPABASE_TABLE_NAME = ''slack_messages_for_sensay''\<rparr>"
  by (simp add: read_config_def subscript_def)

lemma announce_keeps:
  "inserts (announce msg w) = inserts w" "store (announce msg w) = store w"
  by (simp_all add: announce_def capture_write_def logger_info_def)

lemma running_session_state:
  "bot_thread running_session = Some (Listening ''U_target'' ''slack_messages_for_sensay'')"
  "env_vars_confirmed running_session" "bot_started running_session"
  "inserts (background running_session) = []"
  by (simp_all add: running_session_def saved_session start_bot_def
        start_slack_bot_listener_def sample_config working_services_def announce_keeps
        empty_world_def Let_def)

text \<open>
  Claim C8. The stop signal is advisory. The listener starts the same way whatever the
  flag holds; whatever events are delivered, a system whose flag is set to any value
  ends as the system whose flag was left alone, but for the flag; pressing the reset
  button leaves the thread as it was, and the listener goes on to issue the same
  inserts against the same store, with the same log records, as if the button had never
  been pressed. What the button changes is the flag, the two foreground booleans and
  one line of the capture buffer.
\<close>

theorem stop_event_is_advisory:
  "start_slack_bot_listener svc cfg True w = start_slack_bot_listener svc cfg False w
   \<and> deliver_all ins evs (s\<lparr>stop_event := b\<rparr>) = (deliver_all ins evs s)\<lparr>stop_event := b\<rparr>
   \<and> bot_thread (stop_bot s) = bot_thread s
   \<and> bot_thread (deliver_all ins evs (stop_bot s)) = bot_thread (deliver_all ins evs s)
   \<and> store (background (deliver_all ins evs (stop_bot s)))
       = store (background (deliver_all ins evs s))
   \<and> inserts (background (deliver_all ins evs (stop_bot s)))
       = inserts (background (deliver_all ins evs s))
   \<and> records (background (deliver_all ins evs (stop_bot s)))
       = records (background (deliver_all ins evs s))"
proof -
  have "bot_thread (deliver_all ins evs (stop_bot s)) = bot_thread (deliver_all ins evs s)
   \<and> store (background (deliver_all ins evs (stop_bot s)))
       = store (background (deliver_all ins evs s))
   \<and> inserts (background (deliver_all ins evs (stop_bot s)))
       = inserts (background (deliver_all ins evs s))
   \<and> records (background (deliver_all ins evs (stop_bot s)))
       = records (background (deliver_all ins evs s))"
    by (rule deliver_all_agree) (rule stop_bot_keeps)+
  moreover have "start_slack_bot_listener svc cfg True w = start_slack_bot_listener svc cfg False w"
    by (rule start_ignores_flag)
  moreover have "deliver_all ins evs (s\<lparr>stop_event := b\<rparr>)
                   = (deliver_all ins evs s)\<lparr>stop_event := b\<rparr>"
    by (rule deliver_all_stop_event)
  moreover have "bot_thread (stop_bot s) = bot_thread s"
    by (rule stop_bot_keeps)
  ultimately show ?thesis
    by blast
qed

theorem stop_event_is_advisory_witness:
  "bot_thread (stop_bot running_session)
     = Some (Listening ''U_target'' ''slack_messages_for_sensay'')
   \<and> stop_event (stop_bot running_session)
   \<and> inserts (background (deliver_all unique_store [hello_event] (stop_bot running_session)))
     = [(''slack_messages_for_sensay'',
         \<lparr>slack_user_id = PyStr ''U_target'', slack_channel_id = PyStr ''C1'',
          message_content = PyStr ''hello'', slack_message_ts = PyStr ''T1''\<rparr>)]"
proof -
  note advisory = stop_event_is_advisory
         [where s = running_session and ins = unique_store and evs = "[hello_event]"
            and svc = working_services and cfg = Map.empty and w = "empty_world ()" and b = True]
  have row: "data_to_insert hello_event
               = \<lparr>slack_user_id = PyStr ''U_target'', slack_channel_id = PyStr ''C1'',
                  message_content = PyStr ''hello'', slack_message_ts = PyStr ''T1''\<rparr>"
    by (simp add: data_to_insert_def hello_event_def dict_get_def)
  have unstopped:
    "inserts (background (deliver_all unique_store [hello_event] running_session))
       = [(''slack_messages_for_sensay'', data_to_insert hello_event)]"
    using handle_inserts [OF relevant_hello, of App unique_store "''slack_messages_for_sensay''"
            "background running_session"]
    by (simp add: deliver_def running_session_state)
  have flag: "stop_event (stop_bot running_session)"
    by (simp add: stop_bot_def running_session_state)
  from advisory unstopped flag show ?thesis
    by (simp add: running_session_state row)
qed

section \<open>Properties of the configuration\<close>

lemma snd_then_step:
  "snd (then_step m f) = (case snd m of Inl t \<Rightarrow> Inl t | Inr a \<Rightarrow> snd (f a))"
  by (simp add: then_step_def split: prod.splits sum.splits)

lemma fst_then_step:
  "fst (then_step m f) = (case snd m of Inl t \<Rightarrow> fst m | Inr a \<Rightarrow> fst m @ fst (f a))"
  by (simp add: then_step_def split: prod.splits sum.splits)

lemma get_env_variable_quiet:
  "\<not> list_ex constructs (fst (get_env_variable env reply v p b))"
  by (simp add: get_env_variable_def Let_def split: option.splits)

lemma get_table_name_quiet:
  "\<not> list_ex constructs (fst (get_table_name env reply))"
  by (simp add: get_table_name_def Let_def split: option.splits)

lemma get_env_variable_exit:
  "\<forall>t. snd (get_env_variable env reply v p b) = Inl t \<longrightarrow> exit_status t = 1"
  by (auto simp: get_env_variable_def Let_def split: option.splits if_splits)

lemma get_table_name_exit:
  "\<forall>t. snd (get_table_name env reply) = Inl t \<longrightarrow> exit_status t = 1"
  by (auto simp: get_table_name_def Let_def split: option.splits if_splits)

lemma then_step_exit:
  assumes "\<forall>t. snd m = Inl t \<longrightarrow> exit_status t = 1"
    and "\<forall>a. \<forall>t. snd (f a) = Inl t \<longrightarrow> exit_status t = 1"
  shows "\<forall>t. snd (then_step m f) = Inl t \<longrightarrow> exit_status t = 1"
  using assms by (auto simp: snd_then_step split: sum.splits)

lemma get_env_variable_unset:
  assumes "unset env v" and "reply (p @ '': '') = Some [] \<or> reply (p @ '': '') = None"
  shows "\<exists>t. snd (get_env_variable env reply v p b) = Inl t"
  using assms by (auto simp: get_env_variable_def unset_def Let_def split: option.splits)

lemma resolve_quiet:
  "\<not> list_ex constructs (fst (resolve_configuration env reply))"
  by (simp add: resolve_configuration_def fst_then_step get_env_variable_quiet
        get_table_name_quiet split: sum.splits)

lemma resolve_exit:
  "\<forall>t. snd (resolve_configuration env reply) = Inl t \<longrightarrow> exit_status t = 1"
  unfolding resolve_configuration_def
  by (intro then_step_exit allI get_env_variable_exit get_table_name_exit) simp

lemma resolve_fails:
  assumes "v \<in> set mandatory" and "unset env v"
    and "reply (prompt_of v) = Some [] \<or> reply (prompt_of v) = None"
  shows "\<exists>t. snd (resolve_configuration env reply) = Inl t"
proof -
  from assms(1)
  have "v = ''SLACK_BOT_TOKEN'' \<or> v = ''SLACK_APP_TOKEN'' \<or> v = ''SUPABASE_URL''
        \<or> v = ''SUPABASE_SERVICE_KEY'' \<or> v = ''TARGET_SLACK_USER_ID''"
    by (simp add: mandatory_def)
  then consider "v = ''SLACK_BOT_TOKEN''" | "v = ''SLACK_APP_TOKEN''"
    | "v = ''SUPABASE_URL''" | "v = ''SUPABASE_SERVICE_KEY''" | "v = ''TARGET_SLACK_USER_ID''"
    by (elim disjE) assumption+
  then show ?thesis
  proof cases
    case 1
    with assms(2,3)
    have "\<exists>t. snd (get_env_variable env reply ''SLACK_BOT_TOKEN''
                     ''Enter Slack Bot Token (xoxb-)'' True) = Inl t"
      by (intro get_env_variable_unset) (simp_all add: prompt_of_def)
    then show ?thesis
      by (auto simp: resolve_configuration_def snd_then_step split: sum.splits)
  next
    case 2
    with assms(2,3)
    have "\<exists>t. snd (get_env_variable env reply ''SLACK_APP_TOKEN''
                     ''Enter Slack App Token (xapp-)'' True) = Inl t"
      by (intro get_env_variable_unset) (simp_all add: prompt_of_def)
    then show ?thesis
      by (auto simp: resolve_configuration_def snd_then_step split: sum.splits)
  next
    case 3
    with assms(2,3)
    have "\<exists>t. snd (get_env_variable env reply ''SUPABASE_URL''
                     ''Enter Supabase Project URL'' False) = Inl t"
      by (intro get_env_variable_unset) (simp_all add: prompt_of_def)
    then show ?thesis
      by (auto simp: resolve_configuration_def snd_then_step split: sum.splits)
  next
    case 4
    with assms(2,3)
    have "\<exists>t. snd (get_env_variable env reply ''SUPABASE_SERVICE_KEY''
                     ''Enter Supabase Service Role Key'' True) = Inl t"
      by (intro get_env_variable_unset) (simp_all add: prompt_of_def)
    then show ?thesis
      by (auto simp: resolve_configuration_def snd_then_step split: sum.splits)
  next
    case 5
    with assms(2,3)
    have "\<exists>t. snd (get_env_variable env reply ''TARGET_SLACK_USER_ID''
                     ''Enter Target Slack User ID (e.g., UXXXXXXXXXX)'' False) = Inl t"
      by (intro get_env_variable_unset) (simp_all add: prompt_of_def)
    then show ?thesis
      by (auto simp: resolve_configuration_def snd_then_step split: sum.splits)
  qed
qed

lemma supplied_env:
  "partial_env ''SLACK_BOT_TOKEN'' = None"
  "partial_env ''SLACK_APP_TOKEN'' = Some ''xapp-1''"
  "partial_env ''SUPABASE_URL'' = Some ''https://db.example''"
  "partial_env ''SUPABASE_SERVICE_KEY'' = Some ''service-key''"
  "partial_env ''TARGET_SLACK_USER_ID'' = Some ''U_target''"
  "partial_env ''SUPABASE_TABLE_NAME'' = Some ''messages''"
  by (simp_all add: partial_env_def)

lemma unanswered_prompt_exits_before_construction:
  assumes "v \<in> set mandatory" and "unset env v"
    and "reply (prompt_of v) = Some [] \<or> reply (prompt_of v) = None"
  shows "snd (run_bot svc env reply) = Exited 1
         \<and> \<not> list_ex constructs (fst (run_bot svc env reply))"
proof -
  have "\<exists>t. snd (resolve_configuration env reply) = Inl t"
    using assms by (rule resolve_fails)
  then obtain t where t: "snd (resolve_configuration env reply) = Inl t"
    by blast
  then have "exit_status t = 1"
    using resolve_exit by blast
  with t resolve_quiet [of env reply] show ?thesis
    by (auto simp: run_bot_def split: prod.splits)
qed

lemma get_env_variable_set:
  assumes "\<not> unset env v"
  shows "\<exists>x. get_env_variable env reply v p b = ([], Inr x)"
  using assms by (auto simp: get_env_variable_def unset_def Let_def split: option.splits)

lemma get_env_variable_prompts:
  assumes "unset env v"
  shows "\<exists>rest r. get_env_variable env reply v p b = (Prompted (p @ '': '') b # rest, r)"
  using assms by (auto simp: get_env_variable_def unset_def Let_def split: option.splits)

lemma then_step_silent:
  assumes "\<exists>x. m = ([], Inr x)" and "\<And>x. \<exists>rest r. f x = (e # rest, r)"
  shows "\<exists>rest r. then_step m f = (e # rest, r)"
proof -
  from assms(1) obtain x where m: "m = ([], Inr x)"
    by blast
  from assms(2) obtain rest r where "f x = (e # rest, r)"
    by blast
  with m show ?thesis
    by (simp add: then_step_def)
qed

lemma then_step_first:
  assumes "\<exists>rest r. m = (e # rest, r)"
  shows "\<exists>rest r. then_step m f = (e # rest, r)"
  using assms by (auto simp: then_step_def split: sum.splits prod.splits)

lemma resolve_prompts_first:
  assumes "find (unset env) mandatory = Some u"
  shows "\<exists>rest r. resolve_configuration env reply = (Prompted (prompt_of u) (secret u) # rest, r)"
proof -
  from assms consider
      (1) "u = ''SLACK_BOT_TOKEN''" "unset env ''SLACK_BOT_TOKEN''"
    | (2) "u = ''SLACK_APP_TOKEN''" "\<not> unset env ''SLACK_BOT_TOKEN''"
          "unset env ''SLACK_APP_TOKEN''"
    | (3) "u = ''SUPABASE_URL''" "\<not> unset env ''SLACK_BOT_TOKEN''"
          "\<not> unset env ''SLACK_APP_TOKEN''" "unset env ''SUPABASE_URL''"
    | (4) "u = ''SUPABASE_SERVICE_KEY''" "\<not> unset env ''SLACK_BOT_TOKEN''"
          "\<not> unset env ''SLACK_APP_TOKEN''" "\<not> unset env ''SUPABASE_URL''"
          "unset env ''SUPABASE_SERVICE_KEY''"
    | (5) "u = ''TARGET_SLACK_USER_ID''" "\<not> unset env ''SLACK_BOT_TOKEN''"
          "\<not> unset env ''SLACK_APP_TOKEN''" "\<not> unset env ''SUPABASE_URL''"
          "\<not> unset env ''SUPABASE_SERVICE_KEY''" "unset env ''TARGET_SLACK_USER_ID''"
    unfolding mandatory_def find.simps
    by (metis option.inject option.distinct(1))
  then show ?thesis
  proof cases
    case 1
    have p: "prompt_of u = ''Enter Slack Bot Token (xoxb-)'' @ '': ''" "secret u = True"
      by (simp_all add: 1(1) prompt_of_def secret_def)
    show ?thesis
      unfolding resolve_configuration_def p
      by (intro then_step_first get_env_variable_prompts 1)
  next
    case 2
    have p: "prompt_of u = ''Enter Slack App Token (xapp-)'' @ '': ''" "secret u = True"
      by (simp_all add: 2(1) prompt_of_def secret_def)
    show ?thesis
      unfolding resolve_configuration_def p
      by (intro then_step_silent get_env_variable_set then_step_first get_env_variable_prompts 2)
  next
    case 3
    have p: "prompt_of u = ''Enter Supabase Project URL'' @ '': ''" "secret u = False"
      by (simp_all add: 3(1) prompt_of_def secret_def)
    show ?thesis
      unfolding resolve_configuration_def p
      by (intro then_step_silent get_env_variable_set then_step_first get_env_variable_prompts 3)
  next
    case 4
    have p: "prompt_of u = ''Enter Supabase Service Role Key'' @ '': ''" "secret u = True"
      by (simp_all add: 4(1) prompt_of_def secret_def)
    show ?thesis
      unfolding resolve_configuration_def p
      by (intro then_step_silent get_env_variable_set then_step_first get_env_variable_prompts 4)
  next
    case 5
    have p: "prompt_of u = ''Enter Target Slack User ID (e.g., UXXXXXXXXXX)'' @ '': ''"
      "secret u = False"
      by (simp_all add: 5(1) prompt_of_def secret_def)
    show ?thesis
      unfolding resolve_configuration_def p
      by (intro then_step_silent get_env_variable_set then_step_first get_env_variable_prompts 5)
  qed
qed

lemma run_bot_prompts_first:
  assumes "find (unset env) mandatory = Some u"
  shows "\<exists>rest. fst (run_bot svc env reply) = Prompted (prompt_of u) (secret u) # rest"
proof -
  from resolve_prompts_first [OF assms] obtain rest r
    where "resolve_configuration env reply = (Prompted (prompt_of u) (secret u) # rest, r)"
    by blast
  then show ?thesis
    by (cases r) (auto simp: run_bot_def split: prod.splits)
qed

text \<open>
  Claim C5, as the code has it. When one of the five mandatory settings is absent from
  the environment, or empty in it, the first thing \<open>run_bot\<close> does is prompt for the first
  such setting, in the order it resolves them. When the reply to the prompt of an absent
  mandatory setting is empty, or the input has ended, the process ends with exit status
  1, and nothing it did before constructs a client or a listener.
\<close>

theorem absent_value_is_prompted_for_and_required:
  assumes "find (unset env) mandatory = Some u"
  shows "(\<exists>rest. fst (run_bot svc env reply) = Prompted (prompt_of u) (secret u) # rest)
         \<and> (\<forall>v \<in> set mandatory.
               unset env v \<and> (reply (prompt_of v) = Some [] \<or> reply (prompt_of v) = None)
               \<longrightarrow> snd (run_bot svc env reply) = Exited 1
                    \<and> \<not> list_ex constructs (fst (run_bot svc env reply)))"
proof (intro conjI ballI impI)
  show "\<exists>rest. fst (run_bot svc env reply) = Prompted (prompt_of u) (secret u) # rest"
    using assms by (rule run_bot_prompts_first)
next
  fix v
  assume v: "v \<in> set mandatory"
    and "unset env v \<and> (reply (prompt_of v) = Some [] \<or> reply (prompt_of v) = None)"
  then have "unset env v" and "reply (prompt_of v) = Some [] \<or> reply (prompt_of v) = None"
    by simp_all
  with v have both: "snd (run_bot svc env reply) = Exited 1
          \<and> \<not> list_ex constructs (fst (run_bot svc env reply))"
    by (rule unanswered_prompt_exits_before_construction)
  from both show "snd (run_bot svc env reply) = Exited 1"
    by (rule conjunct1)
  from both show "\<not> list_ex constructs (fst (run_bot svc env reply))"
    by (rule conjunct2)
qed

theorem absent_value_is_prompted_for_and_required_witness:
  "hd (fst (run_bot working_services partial_env presses_return))
     = Prompted ''Enter Slack Bot Token (xoxb-): '' True
   \<and> snd (run_bot working_services partial_env presses_return) = Exited 1
   \<and> \<not> list_ex constructs (fst (run_bot working_services partial_env presses_return))"
proof -
  have first: "find (unset partial_env) mandatory = Some ''SLACK_BOT_TOKEN''"
    by (simp add: mandatory_def unset_def supplied_env)
  have member: "''SLACK_BOT_TOKEN'' \<in> set mandatory"
    by (simp add: mandatory_def)
  have unanswered: "unset partial_env ''SLACK_BOT_TOKEN''
      \<and> (presses_return (prompt_of ''SLACK_BOT_TOKEN'') = Some []
           \<or> presses_return (prompt_of ''SLACK_BOT_TOKEN'') = None)"
    by (simp add: unset_def supplied_env presses_return_def)
  have shown: "prompt_of ''SLACK_BOT_TOKEN'' = ''Enter Slack Bot Token (xoxb-): ''"
    "secret ''SLACK_BOT_TOKEN''"
    by (simp_all add: prompt_of_def secret_def)
  note at_env = absent_value_is_prompted_for_and_required
         [where env = partial_env and u = "''SLACK_BOT_TOKEN''" and svc = working_services
            and reply = presses_return, OF first]
  from conjunct1 [OF at_env]
  have "hd (fst (run_bot working_services partial_env presses_return))
          = Prompted ''Enter Slack Bot Token (xoxb-): '' True"
    using shown by auto
  moreover from bspec [OF conjunct2 [OF at_env] member] unanswered
  have "snd (run_bot working_services partial_env presses_return) = Exited 1
        \<and> \<not> list_ex constructs (fst (run_bot working_services partial_env presses_return))"
    by (rule mp)
  ultimately show ?thesis
    by simp
qed

text \<open>
  Claim C5 as stated fails: with \<open>SLACK_BOT_TOKEN\<close> absent from the environment and an
  operator who types a token at the prompt, \<open>run_bot\<close> does not exit; it constructs both
  clients and starts listening.
\<close>

theorem missing_variable_is_prompted_for:
  "partial_env ''SLACK_BOT_TOKEN'' = None
   \<and> run_bot working_services partial_env types_token
     = ([Prompted ''Enter Slack Bot Token (xoxb-): '' True,
         Logged INFO ''Initializing Deshi Knowledge Collector Bot...'',
         ConstructedApp ''xoxb-1'',
         CreatedClient ''https://db.example'' ''service-key'',
         Logged INFO ''Supabase client initialized for URL: https://db.example'',
         Logged INFO ''Monitoring messages from Slack User ID: U_target'',
         Logged INFO ''Storing messages in Supabase table: messages'',
         RegisteredHandler ''U_target'' ''messages'',
         ConstructedSocketModeHandler ''xapp-1'',
         Logged INFO ''Connecting to Slack via Socket Mode...'',
         StartedListening],
        Serving \<lparr>SLACK_BOT_TOKEN = ''xoxb-1'', SLACK_APP_TOKEN = ''xapp-1'',
                 SUPABASE_URL = ''https://db.example'', SUPABASE_SERVICE_KEY = ''service-key'',
                 TARGET_SLACK_USER_ID = ''U_target'', SUPABASE_TABLE_NAME = ''messages''\<rparr>)"
  by (simp add: run_bot_def resolve_configuration_def then_step_def get_env_variable_def
        get_table_name_def supplied_env types_token_def serve_def working_services_def Let_def)

lemma replies_prompt:
  "replies typed (''Enter Slack Bot Token (xoxb-)'' @ '': '') = Some (typed ''SLACK_BOT_TOKEN'')"
  "replies typed (''Enter Slack App Token (xapp-)'' @ '': '') = Some (typed ''SLACK_APP_TOKEN'')"
  "replies typed (''Enter Supabase Project URL'' @ '': '') = Some (typed ''SUPABASE_URL'')"
  "replies typed (''Enter Supabase Service Role Key'' @ '': '') = Some (typed ''SUPABASE_SERVICE_KEY'')"
  "replies typed (''Enter Target Slack User ID (e.g., UXXXXXXXXXX)'' @ '': '')
     = Some (typed ''TARGET_SLACK_USER_ID'')"
  "replies typed table_name_prompt = Some (typed ''SUPABASE_TABLE_NAME'')"
  by (simp_all add: replies_def prompt_of_def table_name_prompt_def)

lemma snd_get_env_variable:
  assumes "reply (p @ '': '') = Some (typed v)"
  shows "snd (get_env_variable env reply v p b)
           = (if supplied env typed v = [] then Inl (SystemExit 1) else Inr (supplied env typed v))"
  using assms
  by (simp add: get_env_variable_def supplied_def unset_def getenv_default_def Let_def
        split: option.splits)

lemma snd_get_table_name:
  assumes "reply table_name_prompt = Some (typed ''SUPABASE_TABLE_NAME'')"
  shows "snd (get_table_name env reply)
           = Inr (if supplied env typed ''SUPABASE_TABLE_NAME'' = [] then default_table_name
                  else supplied env typed ''SUPABASE_TABLE_NAME'')"
  using assms
  by (simp add: get_table_name_def supplied_def unset_def getenv_default_def Let_def
        split: option.splits)

lemma snd_get_each:
  "snd (get_env_variable env (replies typed) ''SLACK_BOT_TOKEN'' ''Enter Slack Bot Token (xoxb-)'' b1)
     = (if supplied env typed ''SLACK_BOT_TOKEN'' = [] then Inl (SystemExit 1)
        else Inr (supplied env typed ''SLACK_BOT_TOKEN''))"
  "snd (get_env_variable env (replies typed) ''SLACK_APP_TOKEN'' ''Enter Slack App Token (xapp-)'' b2)
     = (if supplied env typed ''SLACK_APP_TOKEN'' = [] then Inl (SystemExit 1)
        else Inr (supplied env typed ''SLACK_APP_TOKEN''))"
  "snd (get_env_variable env (replies typed) ''SUPABASE_URL'' ''Enter Supabase Project URL'' b3)
     = (if supplied env typed ''SUPABASE_URL'' = [] then Inl (SystemExit 1)
        else Inr (supplied env typed ''SUPABASE_URL''))"
  "snd (get_env_variable env (replies typed) ''SUPABASE_SERVICE_KEY''
          ''Enter Supabase Service Role Key'' b4)
     = (if supplied env typed ''SUPABASE_SERVICE_KEY'' = [] then Inl (SystemExit 1)
        else Inr (supplied env typed ''SUPABASE_SERVICE_KEY''))"
  "snd (get_env_variable env (replies typed) ''TARGET_SLACK_USER_ID''
          ''Enter Target Slack User ID (e.g., UXXXXXXXXXX)'' b5)
     = (if supplied env typed ''TARGET_SLACK_USER_ID'' = [] then Inl (SystemExit 1)
        else Inr (supplied env typed ''TARGET_SLACK_USER_ID''))"
  "snd (get_table_name env (replies typed))
     = Inr (if supplied env typed ''SUPABASE_TABLE_NAME'' = [] then default_table_name
            else supplied env typed ''SUPABASE_TABLE_NAME'')"
  by (rule snd_get_env_variable snd_get_table_name, rule replies_prompt)+

lemma console_config_snd:
  "console_config env reply
     = (case snd (resolve_configuration env reply) of Inl t \<Rightarrow> None | Inr cfg \<Rightarrow> Some cfg)"
  by (simp add: console_config_def split: prod.splits sum.splits)

lemma form_config_filled:
  "form_config (filled_form env typed)
     = (if list_ex (\<lambda>v. supplied env typed v = []) mandatory then None
        else Some \<lparr>SLACK_BOT_TOKEN = supplied env typed ''SLACK_BOT_TOKEN'',
                   SLACK_APP_TOKEN = supplied env typed ''SLACK_APP_TOKEN'',
                   SUPABASE_URL = supplied env typed ''SUPABASE_URL'',
                   SUPABASE_SERVICE_KEY = supplied env typed ''SUPABASE_SERVICE_KEY'',
                   TARGET_SLACK_USER_ID = supplied env typed ''TARGET_SLACK_USER_ID'',
                   SUPABASE_TABLE_NAME =
                     (if supplied env typed ''SUPABASE_TABLE_NAME'' = [] then default_table_name
                      else supplied env typed ''SUPABASE_TABLE_NAME'')\<rparr>)"
  by (simp add: form_config_def save_configuration_def missing_def filled_form_def
        read_config_def subscript_def Let_def mandatory_def)

lemma console_config_replies:
  "console_config env (replies typed) = form_config (filled_form env typed)"
  by (simp add: console_config_snd resolve_configuration_def snd_then_step
        snd_get_each form_config_def save_configuration_def missing_def filled_form_def
        read_config_def subscript_def Let_def)

lemma supplied_sample:
  "supplied (partial_env(''SUPABASE_TABLE_NAME'' := None)) typed_token ''SLACK_BOT_TOKEN'' = ''xoxb-1''"
  "supplied (partial_env(''SUPABASE_TABLE_NAME'' := None)) typed_token ''SLACK_APP_TOKEN'' = ''xapp-1''"
  "supplied (partial_env(''SUPABASE_TABLE_NAME'' := None)) typed_token ''SUPABASE_URL''
     = ''https://db.example''"
  "supplied (partial_env(''SUPABASE_TABLE_NAME'' := None)) typed_token ''SUPABASE_SERVICE_KEY''
     = ''service-key''"
  "supplied (partial_env(''SUPABASE_TABLE_NAME'' := None)) typed_token ''TARGET_SLACK_USER_ID''
     = ''U_target''"
  "supplied (partial_env(''SUPABASE_TABLE_NAME'' := None)) typed_token ''SUPABASE_TABLE_NAME'' = []"
  by (simp_all add: supplied_def unset_def partial_env_def typed_token_def getenv_default_def)

text \<open>
  Claim C6. Given the same inputs (the environment, and for each setting the environment
  leaves out what the operator types), the console host's resolution and the interactive
  host's form, read back by the listener, yield the same configuration or both yield
  none: none exactly when one of the five mandatory settings is empty, and otherwise the
  six values supplied, with the table name \<open>slack_messages_for_sensay\<close> when none is
  supplied.
\<close>

theorem console_and_form_agree:
  "console_config env (replies typed) = form_config (filled_form env typed)
   \<and> form_config (filled_form env typed)
     = (if list_ex (\<lambda>v. supplied env typed v = []) mandatory then None
        else Some \<lparr>SLACK_BOT_TOKEN = supplied env typed ''SLACK_BOT_TOKEN'',
                   SLACK_APP_TOKEN = supplied env typed ''SLACK_APP_TOKEN'',
                   SUPABASE_URL = supplied env typed ''SUPABASE_URL'',
                   SUPABASE_SERVICE_KEY = supplied env typed ''SUPABASE_SERVICE_KEY'',
                   TARGET_SLACK_USER_ID = supplied env typed ''TARGET_SLACK_USER_ID'',
                   SUPABASE_TABLE_NAME =
                     (if supplied env typed ''SUPABASE_TABLE_NAME'' = [] then default_table_name
                      else supplied env typed ''SUPABASE_TABLE_NAME'')\<rparr>)"
  using console_config_replies [of env typed] form_config_filled [of env typed] by (rule conjI)

theorem console_and_form_agree_witness:
  "console_config (partial_env(''SUPABASE_TABLE_NAME'' := None)) (replies typed_token)
     = Some \<lparr>SLACK_BOT_TOKEN = ''xoxb-1'', SLACK_APP_TOKEN = ''xapp-1'',
             SUPABASE_URL = ''https://db.example'', SUPABASE_SERVICE_KEY = ''service-key'',
             TARGET_SLACK_USER_ID = ''U_target'',
             SUPABASE_TABLE_NAME = ''slack_messages_for_sensay''\<rparr>
   \<and> form_config (filled_form (partial_env(''SUPABASE_TABLE_NAME'' := None)) typed_token)
     = Some \<lparr>SLACK_BOT_TOKEN = ''xoxb-1'', SLACK_APP_TOKEN = ''xapp-1'',
             SUPABASE_URL = ''https://db.example'', SUPABASE_SERVICE_KEY = ''service-key'',
             TARGET_SLACK_USER_ID = ''U_target'',
             SUPABASE_TABLE_NAME = ''slack_messages_for_sensay''\<rparr>"
  using console_and_form_agree [of "partial_env(''SUPABASE_TABLE_NAME'' := None)" typed_token]
  by (simp add: supplied_sample mandatory_def default_table_name_def)

end
